theory Spec2Isabelle
  imports Main
begin

section \<open>The text-detection script \<open>internal/google-vision/main.py\<close>\<close>

text \<open>
  The script is a straight line of statements: it imports the vendor module, computes
  the path of the key file from its own \<open>__file__\<close>, exports that path in
  \<open>os.environ\<close>, builds a client and an image, calls \<open>client.text_detection\<close> once and
  prints a header and, when the annotation list is not empty, the description of its
  first element.

  The embedding keeps every effect of the script explicit. The process state holds the
  environment, the current working directory and the codec of standard output;
  everything the process does that can be observed from outside (an environment write,
  the request, the outcome of the call, a write to a stream) is appended, in program
  order, to a trace. What the script takes from outside the repository is a parameter
  of a run: what the import statements give, whether \<open>__file__\<close> is defined and its
  value, the inherited environment, the working directory, and the encoding and error
  handler the interpreter has given \<open>sys.stdout\<close> at start-up (it chooses them from the
  inherited environment and the locale before the first line runs). The two entry points
  of the vendor library that touch the outside world, the client constructor and
  \<open>text_detection\<close>, either return or raise; neither writes the environment or a
  stream of the process. Every statement that can raise is a branch of the model: the
  import, the lookup of \<open>__file__\<close>, the constructor, the call and each \<open>print\<close>. An
  exception that reaches the top level is what the interpreter makes of it: a traceback
  on the error stream and exit status 1.

  Paths follow \<open>posixpath\<close>, the \<open>os.path\<close> of a POSIX system; paths and environment
  entries are byte strings, as the operating system holds them. Text that is printed is
  a list of Unicode code points, and standard output is the bytes the codec makes of it.
  The codecs covered are ASCII, Latin-1 and UTF-8 with the error handlers \<open>strict\<close>,
  \<open>ignore\<close>, \<open>replace\<close> and \<open>backslashreplace\<close>; the stream takes every byte it is
  given.
\<close>

subsection \<open>\<open>os.path\<close> on POSIX\<close>

definition sep :: char where
  "sep = CHR ''/''"

text \<open>\<open>head.rstrip(sep)\<close>\<close>

definition rstrip :: "char \<Rightarrow> string \<Rightarrow> string" where
  "rstrip c s = rev (dropWhile (\<lambda>x. x = c) (rev s))"

text \<open>
  \<open>p[:p.rfind(sep) + 1]\<close>: the prefix of \<open>p\<close> up to and including its last separator,
  empty when \<open>p\<close> has none (\<open>rfind\<close> is then \<open>-1\<close>).
\<close>

definition upto_last_sep :: "string \<Rightarrow> string" where
  "upto_last_sep p = rev (dropWhile (\<lambda>x. x \<noteq> sep) (rev p))"

text \<open>
  \<^verbatim>\<open>
  def dirname(p):
      i = p.rfind(sep) + 1
      head = p[:i]
      if head and head != sep*len(head):
          head = head.rstrip(sep)
      return head
  \<close>
\<close>

definition dirname :: "string \<Rightarrow> string" where
  "dirname p =
     (let head = upto_last_sep p
      in if head \<noteq> [] \<and> head \<noteq> replicate (length head) sep
         then rstrip sep head
         else head)"

text \<open>
  \<^verbatim>\<open>
  def join(a, b):
      path = a
      if b.startswith(sep):             path = b
      elif not path or path.endswith(sep): path += b
      else:                             path += sep + b
      return path
  \<close>
\<close>

definition startswith :: "string \<Rightarrow> char \<Rightarrow> bool" where
  "startswith s c = (case s of [] \<Rightarrow> False | x # _ \<Rightarrow> x = c)"

definition endswith :: "string \<Rightarrow> char \<Rightarrow> bool" where
  "endswith s c = (case rev s of [] \<Rightarrow> False | x # _ \<Rightarrow> x = c)"

definition join :: "string \<Rightarrow> string \<Rightarrow> string" where
  "join a b =
     (if startswith b sep then b
      else if a = [] \<or> endswith a sep then a @ b
      else a @ sep # b)"

text \<open>\<open>os.path.isabs\<close>: the path starts with the separator.\<close>

definition isabs :: "string \<Rightarrow> bool" where
  "isabs s = startswith s sep"

subsection \<open>Text and the codec of standard output\<close>

text \<open>
  A \<open>str\<close> is a list of code points. \<open>lit\<close> is a string literal of the source, all of
  which are ASCII.
\<close>

type_synonym str = "nat list"

definition lit :: "string \<Rightarrow> str" where
  "lit s = map of_char s"

datatype encoding = ASCII | Latin1 | UTF8

datatype handler = Strict | Ignore | Replace | BackslashReplace

record codec =
  encoding :: encoding
  errors :: handler

text \<open>
  UTF-8 of one code point: one to four bytes by magnitude; the surrogates
  \<open>U+D800\<close> to \<open>U+DFFF\<close> have no encoding, and a \<open>str\<close> holds nothing from
  \<open>0x110000\<close> on.
\<close>

definition utf8_char :: "nat \<Rightarrow> string option" where
  "utf8_char n =
     (if n < 0x80 then Some [char_of n]
      else if n < 0x800 then
        Some [char_of (0xC0 + n div 0x40), char_of (0x80 + n mod 0x40)]
      else if n < 0x10000 then
        (if 0xD800 \<le> n \<and> n \<le> 0xDFFF then None
         else Some [char_of (0xE0 + n div 0x1000), char_of (0x80 + n div 0x40 mod 0x40),
                    char_of (0x80 + n mod 0x40)])
      else if n < 0x110000 then
        Some [char_of (0xF0 + n div 0x40000), char_of (0x80 + n div 0x1000 mod 0x40),
              char_of (0x80 + n div 0x40 mod 0x40), char_of (0x80 + n mod 0x40)]
      else None)"

text \<open>The bytes of one code point, or \<open>None\<close> when the encoding has none for it.\<close>

fun encode_char :: "encoding \<Rightarrow> nat \<Rightarrow> string option" where
  "encode_char ASCII n = (if n < 0x80 then Some [char_of n] else None)"
| "encode_char Latin1 n = (if n < 0x100 then Some [char_of n] else None)"
| "encode_char UTF8 n = utf8_char n"

text \<open>
  \<open>backslashreplace\<close> writes a backslash, then \<open>x\<close>, \<open>u\<close> or \<open>U\<close> and the code point
  in two, four or eight lower-case hexadecimal digits.
\<close>

definition hex_digit :: "nat \<Rightarrow> char" where
  "hex_digit d = ''0123456789abcdef'' ! (d mod 16)"

definition hex :: "nat \<Rightarrow> nat \<Rightarrow> string" where
  "hex w n = map (\<lambda>i. hex_digit (n div 16 ^ i)) (rev [0..<w])"

definition escape :: "nat \<Rightarrow> string" where
  "escape n =
     (if n < 0x100 then CHR 0x5C # CHR ''x'' # hex 2 n
      else if n < 0x10000 then CHR 0x5C # CHR ''u'' # hex 4 n
      else CHR 0x5C # CHR ''U'' # hex 8 n)"

datatype error_kind = CredentialError | NetworkError | ServiceError

text \<open>
  The exceptions a run can end with: a failed import, an undefined \<open>__file__\<close>, a code
  point the codec of standard output cannot encode, and the errors of the vendor
  library.
\<close>

datatype error =
    ModuleNotFoundError string
  | NameError string
  | UnicodeEncodeError nat
  | Error error_kind string

text \<open>
  What the error handler makes of a code point that has no encoding: bytes to write in
  its place, or \<open>None\<close> to raise.
\<close>

fun on_error :: "handler \<Rightarrow> nat \<Rightarrow> string option" where
  "on_error Strict n = None"
| "on_error Ignore n = Some []"
| "on_error Replace n = Some ''?''"
| "on_error BackslashReplace n = Some (escape n)"

text \<open>
  \<open>s.encode(encoding, errors)\<close>: code point by code point, raising at the first one
  that has no encoding and that the handler does not replace.
\<close>

fun encode :: "codec \<Rightarrow> str \<Rightarrow> error + string" where
  "encode k [] = Inr []"
| "encode k (n # ns) =
     (case (case encode_char (encoding k) n of
              Some bs \<Rightarrow> Some bs
            | None \<Rightarrow> on_error (errors k) n) of
        None \<Rightarrow> Inl (UnicodeEncodeError n)
      | Some bs \<Rightarrow>
          (case encode k ns of
             Inl e \<Rightarrow> Inl e
           | Inr r \<Rightarrow> Inr (bs @ r)))"

subsection \<open>Data of the vendor library that the script touches\<close>

text \<open>
  An annotation carries more than its text (locale, bounding polygon); the script reads
  only \<open>description\<close>. An image is created empty and gets its \<open>source.image_uri\<close> set.
  Of the response only \<open>text_annotations\<close> is read.
\<close>

record annotation =
  description :: str

record image_source =
  image_uri :: string

record image =
  content :: string
  source :: image_source

record response =
  text_annotations :: "annotation list"

type_synonym environ = "string \<rightharpoonup> string"

text \<open>
  The library as the script uses it. The constructor discovers credentials from the
  environment of the process; \<open>text_detection\<close> is the remote call. Each returns or
  raises, as the outside world decides.
\<close>

record 'c vision =
  ImageAnnotatorClient :: "environ \<Rightarrow> error + 'c"
  text_detection :: "'c \<Rightarrow> image \<Rightarrow> error + response"

definition Image :: image where
  "Image = \<lparr>content = [], source = \<lparr>image_uri = []\<rparr>\<rparr>"

subsection \<open>Process state and trace\<close>

datatype diag = Traceback error

datatype event =
    SetEnv string string
  | Request image
  | Outcome "error + response"
  | Stdout string
  | Stderr diag

record proc =
  environ :: environ
  cwd :: string
  stdout_codec :: codec
  trace :: "event list"

definition fresh :: "environ \<Rightarrow> string \<Rightarrow> codec \<Rightarrow> proc" where
  "fresh env dir k = \<lparr>environ = env, cwd = dir, stdout_codec = k, trace = []\<rparr>"

definition emit :: "event \<Rightarrow> proc \<Rightarrow> proc" where
  "emit e p = p\<lparr>trace := trace p @ [e]\<rparr>"

text \<open>\<open>os.environ[k] = v\<close>\<close>

definition setenv :: "string \<Rightarrow> string \<Rightarrow> proc \<Rightarrow> proc" where
  "setenv k v p = emit (SetEnv k v) (p\<lparr>environ := (environ p)(k \<mapsto> v)\<rparr>)"

text \<open>
  \<open>sys.stdout.write(s)\<close>: the text is encoded as a whole; if that raises, nothing of it
  is written.
\<close>

definition stdout_write :: "str \<Rightarrow> proc \<Rightarrow> error option \<times> proc" where
  "stdout_write s p =
     (case encode (stdout_codec p) s of
        Inl e \<Rightarrow> (Some e, p)
      | Inr bs \<Rightarrow> (None, emit (Stdout bs) p))"

text \<open>\<open>print(s)\<close>: writes \<open>s\<close>, then the line end.\<close>

definition print :: "str \<Rightarrow> proc \<Rightarrow> error option \<times> proc" where
  "print s p =
     (case stdout_write s p of
        (Some e, p') \<Rightarrow> (Some e, p')
      | (None, p') \<Rightarrow> stdout_write (lit ''\<newline>'') p')"

text \<open>What the trace shows on each channel.\<close>

fun stdout_of :: "event list \<Rightarrow> string" where
  "stdout_of [] = []"
| "stdout_of (Stdout s # t) = s @ stdout_of t"
| "stdout_of (_ # t) = stdout_of t"

fun stderr_of :: "event list \<Rightarrow> diag list" where
  "stderr_of [] = []"
| "stderr_of (Stderr d # t) = d # stderr_of t"
| "stderr_of (_ # t) = stderr_of t"

fun requests_of :: "event list \<Rightarrow> image list" where
  "requests_of [] = []"
| "requests_of (Request i # t) = i # requests_of t"
| "requests_of (_ # t) = requests_of t"

fun env_writes_of :: "event list \<Rightarrow> (string \<times> string) list" where
  "env_writes_of [] = []"
| "env_writes_of (SetEnv k v # t) = (k, v) # env_writes_of t"
| "env_writes_of (_ # t) = env_writes_of t"

fun outcomes_of :: "event list \<Rightarrow> (error + response) list" where
  "outcomes_of [] = []"
| "outcomes_of (Outcome r # t) = r # outcomes_of t"
| "outcomes_of (_ # t) = outcomes_of t"

fun is_returned :: "event \<Rightarrow> bool" where
  "is_returned (Outcome (Inr _)) = True"
| "is_returned _ = False"

fun is_setenv :: "event \<Rightarrow> bool" where
  "is_setenv (SetEnv _ _) = True"
| "is_setenv _ = False"

subsection \<open>The script\<close>

definition GOOGLE_APPLICATION_CREDENTIALS :: string where
  "GOOGLE_APPLICATION_CREDENTIALS = ''GOOGLE_APPLICATION_CREDENTIALS''"

definition image_url :: string where
  "image_url = ''https://images.besttemplates.com/wp-content/uploads/2024/06/Certificate8.jpg''"

text \<open>\<open>CRED_PATH = os.path.join(os.path.dirname(__file__), "vision-api.json")\<close>\<close>

definition CRED_PATH :: "string \<Rightarrow> string" where
  "CRED_PATH file = join (dirname file) ''vision-api.json''"

text \<open>
  \<open>request_image\<close> is the image after \<open>image = vision.Image()\<close> and
  \<open>image.source.image_uri = image_url\<close>.
\<close>

definition request_image :: image where
  "request_image = Image\<lparr>source := (source Image)\<lparr>image_uri := image_url\<rparr>\<rparr>"

text \<open>
  The module body, statement by statement, from the first line. \<open>imported\<close> is what
  the import statements give, the vendor module or the exception; \<open>file\<close> is the value
  of \<open>__file__\<close>, \<open>None\<close> when the name is not defined (a script read from standard
  input, or run with \<open>exec\<close>), and looking it up then raises \<open>NameError\<close>. The test
  \<open>if texts\<close> is the case distinction on the list, and \<open>texts[0]\<close> its head. The
  result is the exception that escaped, if any, and the state of the process at that
  point.
\<close>

definition main :: "error + 'c vision \<Rightarrow> string option \<Rightarrow> proc \<Rightarrow> error option \<times> proc" where
  "main imported file p0 =
     (case imported of
        Inl e \<Rightarrow> (Some e, p0)
      | Inr vision \<Rightarrow>
          (case file of
             None \<Rightarrow> (Some (NameError ''__file__''), p0)
           | Some f \<Rightarrow>
               (let p1 = setenv GOOGLE_APPLICATION_CREDENTIALS (CRED_PATH f) p0
                in (case ImageAnnotatorClient vision (environ p1) of
                      Inl e \<Rightarrow> (Some e, p1)
                    | Inr client \<Rightarrow>
                        (let img = request_image;
                             p2 = emit (Request img) p1;
                             r = text_detection vision client img;
                             p3 = emit (Outcome r) p2
                         in (case r of
                               Inl e \<Rightarrow> (Some e, p3)
                             | Inr resp \<Rightarrow>
                                 (let texts = text_annotations resp
                                  in (case print (lit ''Texts:'') p3 of
                                        (Some e, p4) \<Rightarrow> (Some e, p4)
                                      | (None, p4) \<Rightarrow>
                                          (case texts of
                                             [] \<Rightarrow> (None, p4)
                                           | t0 # _ \<Rightarrow> print (description t0) p4)))))))))"

text \<open>
  The interpreter around the module body: a normal end is exit status 0; an uncaught
  exception is reported on the error stream and the status is 1.
\<close>

record outcome =
  final :: proc
  status :: nat

definition run ::
  "error + 'c vision \<Rightarrow> string option \<Rightarrow> environ \<Rightarrow> string \<Rightarrow> codec \<Rightarrow> outcome" where
  "run imported file env dir k =
     (case main imported file (fresh env dir k) of
        (None, p) \<Rightarrow> \<lparr>final = p, status = 0\<rparr>
      | (Some e, p) \<Rightarrow> \<lparr>final = emit (Stderr (Traceback e)) p, status = 1\<rparr>)"

definition stdout :: "outcome \<Rightarrow> string" where
  "stdout out = stdout_of (trace (final out))"

definition stderr :: "outcome \<Rightarrow> diag list" where
  "stderr out = stderr_of (trace (final out))"

definition requests :: "outcome \<Rightarrow> image list" where
  "requests out = requests_of (trace (final out))"

text \<open>How the remote call of an invocation ended: returned or raised, if it was made.\<close>

definition call_outcomes :: "outcome \<Rightarrow> (error + response) list" where
  "call_outcomes out = outcomes_of (trace (final out))"

text \<open>
  The value the script exports on line 6, if the run gets there: the lines before it
  raise when the import fails or \<open>__file__\<close> is not defined.
\<close>

definition exported :: "error + 'c vision \<Rightarrow> string option \<Rightarrow> string option" where
  "exported imported file =
     (case imported of
        Inl e \<Rightarrow> None
      | Inr vision \<Rightarrow> (case file of None \<Rightarrow> None | Some f \<Rightarrow> Some (CRED_PATH f)))"


subsection \<open>A concrete outside world\<close>

text \<open>
  For running the model on concrete inputs: a world in which the key file exists at the
  paths \<open>files\<close> and the remote call ends as \<open>r\<close>. The constructor looks the
  variable up in the environment it is given and raises when it is unset or names no
  existing file; the client it returns is the path of the key.
\<close>

definition service :: "string list \<Rightarrow> error + response \<Rightarrow> string vision" where
  "service files r =
     \<lparr>ImageAnnotatorClient =
        (\<lambda>env. case env GOOGLE_APPLICATION_CREDENTIALS of
                 None \<Rightarrow> Inl (Error CredentialError ''credentials were not found'')
               | Some p \<Rightarrow>
                   if p \<in> set files then Inr p
                   else Inl (Error CredentialError (''File '' @ p @ '' was not found.''))),
      text_detection = (\<lambda>client img. r)\<rparr>"

definition annotations :: "str list \<Rightarrow> error + response" where
  "annotations ds = Inr \<lparr>text_annotations = map (\<lambda>d. \<lparr>description = d\<rparr>) ds\<rparr>"

definition utf8 :: codec where
  "utf8 = \<lparr>encoding = UTF8, errors = Strict\<rparr>"

definition ascii :: codec where
  "ascii = \<lparr>encoding = ASCII, errors = Strict\<rparr>"

section \<open>Properties\<close>

subsection \<open>Paths\<close>

lemma takeWhile_eq_replicate: "takeWhile (\<lambda>x. x = c) xs = replicate (length (takeWhile (\<lambda>x. x = c) xs)) c"
  by (induction xs) auto

lemma rstrip_decomp: "s = rstrip c s @ replicate (length (takeWhile (\<lambda>x. x = c) (rev s))) c"
proof -
  have "rev s = takeWhile (\<lambda>x. x = c) (rev s) @ dropWhile (\<lambda>x. x = c) (rev s)"
    by simp
  then have "s = rev (dropWhile (\<lambda>x. x = c) (rev s)) @ rev (takeWhile (\<lambda>x. x = c) (rev s))"
    by (metis rev_append rev_rev_ident)
  also have "rev (takeWhile (\<lambda>x. x = c) (rev s)) = replicate (length (takeWhile (\<lambda>x. x = c) (rev s))) c"
    by (metis takeWhile_eq_replicate rev_replicate)
  finally show ?thesis by (simp add: rstrip_def)
qed

lemma rstrip_not_end: "\<not> endswith (rstrip c s) c"
proof (cases "dropWhile (\<lambda>x. x = c) (rev s)")
  case Nil
  show ?thesis unfolding endswith_def rstrip_def rev_rev_ident Nil by simp
next
  case (Cons h t)
  with hd_dropWhile [of "\<lambda>x. x = c" "rev s"] have h: "h \<noteq> c" by simp
  show ?thesis unfolding endswith_def rstrip_def rev_rev_ident Cons using h by simp
qed

lemma rstrip_nonempty: "s \<noteq> replicate (length s) c \<Longrightarrow> rstrip c s \<noteq> []"
proof
  assume ne: "s \<noteq> replicate (length s) c" and e: "rstrip c s = []"
  from rstrip_decomp [of s c] e have "s = replicate (length (takeWhile (\<lambda>x. x = c) (rev s))) c"
    by simp
  then have "s = replicate (length s) c"
    by (metis length_replicate)
  with ne show False by simp
qed

lemma upto_last_sep_decomp: "p = upto_last_sep p @ rev (takeWhile (\<lambda>x. x \<noteq> sep) (rev p))"
proof -
  have "rev p = takeWhile (\<lambda>x. x \<noteq> sep) (rev p) @ dropWhile (\<lambda>x. x \<noteq> sep) (rev p)"
    by simp
  then have "p = rev (dropWhile (\<lambda>x. x \<noteq> sep) (rev p)) @ rev (takeWhile (\<lambda>x. x \<noteq> sep) (rev p))"
    by (metis rev_append rev_rev_ident)
  then show ?thesis by (simp add: upto_last_sep_def)
qed

lemma upto_last_sep_abs:
  assumes "isabs p"
  shows "isabs (upto_last_sep p)"
proof -
  from assms obtain r where p: "p = sep # r"
    by (cases p) (auto simp: isabs_def startswith_def)
  have "sep \<in> set (rev p)" using p by simp
  then have "dropWhile (\<lambda>x. x \<noteq> sep) (rev p) \<noteq> []"
    by (simp add: dropWhile_eq_Nil_conv) 
  then have ne: "upto_last_sep p \<noteq> []" by (simp add: upto_last_sep_def)
  then obtain h t where ht: "upto_last_sep p = h # t" by (cases "upto_last_sep p") auto
  with upto_last_sep_decomp [of p] p have "h = sep" by (metis append_Cons list.inject)
  with ht show ?thesis by (simp add: isabs_def startswith_def)
qed

lemma dirname_abs:
  assumes "isabs p"
  shows "isabs (dirname p)"
proof (cases "upto_last_sep p \<noteq> [] \<and> upto_last_sep p \<noteq> replicate (length (upto_last_sep p)) sep")
  case False
  then have "dirname p = upto_last_sep p" by (auto simp: dirname_def Let_def)
  with upto_last_sep_abs [OF assms] show ?thesis by simp
next
  case True
  then have d: "dirname p = rstrip sep (upto_last_sep p)" by (simp add: dirname_def Let_def)
  from True have ne: "rstrip sep (upto_last_sep p) \<noteq> []" by (simp add: rstrip_nonempty)
  then obtain h t where ht: "rstrip sep (upto_last_sep p) = h # t"
    by (cases "rstrip sep (upto_last_sep p)") auto
  from upto_last_sep_abs [OF assms] obtain r where r: "upto_last_sep p = sep # r"
    by (cases "upto_last_sep p") (auto simp: isabs_def startswith_def)
  from rstrip_decomp [of "upto_last_sep p" sep] ht r have "h = sep"
    by (metis append_Cons list.inject)
  with d ht show ?thesis by (simp add: isabs_def startswith_def)
qed

lemma endswith_replicate: "0 < n \<Longrightarrow> endswith (replicate n c) c"
  by (cases n) (auto simp: endswith_def replicate_append_same)

lemma dirname_shape:
  "dirname p = replicate (length (dirname p)) sep \<and> (dirname p = [] \<or> endswith (dirname p) sep)
   \<or> dirname p \<noteq> replicate (length (dirname p)) sep \<and> dirname p \<noteq> [] \<and> \<not> endswith (dirname p) sep"
proof (cases "upto_last_sep p \<noteq> [] \<and> upto_last_sep p \<noteq> replicate (length (upto_last_sep p)) sep")
  case False
  then have d: "dirname p = upto_last_sep p" by (auto simp: dirname_def Let_def)
  from False have "upto_last_sep p = replicate (length (upto_last_sep p)) sep" by auto
  with d have a: "dirname p = replicate (length (dirname p)) sep" by simp
  have "dirname p = [] \<or> endswith (dirname p) sep"
  proof (cases "dirname p = []")
    case False
    then have "0 < length (dirname p)" by simp
    from endswith_replicate [OF this, of sep] a show ?thesis by simp
  qed simp
  with a show ?thesis by blast
next
  case True
  then have d: "dirname p = rstrip sep (upto_last_sep p)" by (simp add: dirname_def Let_def)
  from True have ne: "dirname p \<noteq> []" by (simp add: rstrip_nonempty d)
  have ns: "\<not> endswith (dirname p) sep" by (simp add: d rstrip_not_end)
  have "dirname p \<noteq> replicate (length (dirname p)) sep"
  proof
    assume a: "dirname p = replicate (length (dirname p)) sep"
    from ne have "0 < length (dirname p)" by simp
    from endswith_replicate [OF this, of sep] a ns show False by simp
  qed
  with ne ns show ?thesis by blast
qed


lemma CRED_PATH_shape:
  "CRED_PATH file =
     (if dirname file = replicate (length (dirname file)) sep
      then dirname file @ ''vision-api.json''
      else dirname file @ ''/vision-api.json'')"
  using dirname_shape [of "file"]
  by (auto simp: CRED_PATH_def join_def startswith_def sep_def)

lemma CRED_PATH_abs: "isabs file \<Longrightarrow> isabs (CRED_PATH file)"
  using dirname_abs [of "file"] CRED_PATH_shape [of "file"]
  by (cases "dirname file") (auto simp: isabs_def startswith_def)

lemma CRED_PATH_example: "CRED_PATH ''/srv/app/main.py'' = ''/srv/app/vision-api.json''"
  by (simp add: CRED_PATH_def join_def dirname_def upto_last_sep_def rstrip_def
      startswith_def endswith_def sep_def)

subsection \<open>Encoding\<close>

text \<open>All three encodings agree on ASCII, so an ASCII literal is written as it stands.\<close>

lemma encode_char_ascii: "n < 128 \<Longrightarrow> encode_char e n = Some [char_of n]"
  by (cases e) (simp_all add: utf8_char_def)

lemma encode_lit:
  "list_all (\<lambda>c. of_char c < (128::nat)) s \<Longrightarrow> encode k (lit s) = Inr s"
  by (induction s) (simp_all add: lit_def encode_char_ascii)

lemma encode_header: "encode k (lit ''Texts:'') = Inr ''Texts:''"
  by (rule encode_lit) simp

lemma encode_newline: "encode k (lit ''\<newline>'') = Inr ''\<newline>''"
  by (rule encode_lit) simp

lemma print_encode:
  "print s p =
     (case encode (stdout_codec p) s of
        Inl e \<Rightarrow> (Some e, p)
      | Inr bs \<Rightarrow> (None, emit (Stdout ''\<newline>'') (emit (Stdout bs) p)))"
  by (simp add: print_def stdout_write_def emit_def encode_newline split: sum.splits)

subsection \<open>The trace of an invocation\<close>

text \<open>
  The whole observable behaviour of one invocation, by cases on what the import, the
  lookup of \<open>__file__\<close>, the constructor, the remote call and the codec do. The header
  is ASCII, so printing it raises under no codec.
\<close>

lemma run_trace:
  "trace (final (run imported file env dir k)) =
     (case imported of
        Inl e \<Rightarrow> [Stderr (Traceback e)]
      | Inr lib \<Rightarrow>
          (case file of
             None \<Rightarrow> [Stderr (Traceback (NameError ''__file__''))]
           | Some f \<Rightarrow>
               SetEnv GOOGLE_APPLICATION_CREDENTIALS (CRED_PATH f) #
               (case ImageAnnotatorClient lib (env(GOOGLE_APPLICATION_CREDENTIALS \<mapsto> CRED_PATH f)) of
                  Inl e \<Rightarrow> [Stderr (Traceback e)]
                | Inr c \<Rightarrow>
                    Request request_image # Outcome (text_detection lib c request_image) #
                    (case text_detection lib c request_image of
                       Inl e \<Rightarrow> [Stderr (Traceback e)]
                     | Inr resp \<Rightarrow>
                         Stdout ''Texts:'' # Stdout ''\<newline>'' #
                         (case text_annotations resp of
                            [] \<Rightarrow> []
                          | t0 # _ \<Rightarrow>
                              (case encode k (description t0) of
                                 Inl e \<Rightarrow> [Stderr (Traceback e)]
                               | Inr bs \<Rightarrow> [Stdout bs, Stdout ''\<newline>''])))))) "
  by (simp add: run_def main_def fresh_def setenv_def emit_def print_encode encode_header Let_def
           split: sum.splits list.splits option.splits)

lemma run_status:
  "status (run imported file env dir k) =
     (case imported of
        Inl e \<Rightarrow> 1
      | Inr lib \<Rightarrow>
          (case file of
             None \<Rightarrow> 1
           | Some f \<Rightarrow>
               (case ImageAnnotatorClient lib (env(GOOGLE_APPLICATION_CREDENTIALS \<mapsto> CRED_PATH f)) of
                  Inl e \<Rightarrow> 1
                | Inr c \<Rightarrow>
                    (case text_detection lib c request_image of
                       Inl e \<Rightarrow> 1
                     | Inr resp \<Rightarrow>
                         (case text_annotations resp of
                            [] \<Rightarrow> 0
                          | t0 # _ \<Rightarrow>
                              (case encode k (description t0) of
                                 Inl e \<Rightarrow> 1
                               | Inr bs \<Rightarrow> 0))))))"
  by (simp add: run_def main_def fresh_def setenv_def emit_def print_encode encode_header Let_def
           split: sum.splits list.splits option.splits)

lemma run_environ:
  "environ (final (run imported file env dir k)) =
     (case exported imported file of
        None \<Rightarrow> env
      | Some p \<Rightarrow> env(GOOGLE_APPLICATION_CREDENTIALS \<mapsto> p))"
  by (simp add: run_def main_def fresh_def setenv_def emit_def print_encode encode_header Let_def
           exported_def
           split: sum.splits list.splits option.splits)

lemma run_cwd: "cwd (final (run imported file env dir k)) = dir"
  by (simp add: run_def main_def fresh_def setenv_def emit_def print_encode encode_header Let_def
           split: sum.splits list.splits option.splits)

lemma returned_stdout:
  assumes "call_outcomes (run imported file env dir k) = [Inr resp]"
  shows "stdout (run imported file env dir k) =
           ''Texts:\<newline>'' @
           (case text_annotations resp of
              [] \<Rightarrow> []
            | t0 # _ \<Rightarrow>
                (case encode k (description t0) of
                   Inl e \<Rightarrow> []
                 | Inr bs \<Rightarrow> bs @ ''\<newline>''))"
  using assms unfolding call_outcomes_def stdout_def run_trace
  by (auto split: sum.splits list.splits option.splits)

lemma raised_run:
  assumes "call_outcomes (run imported file env dir k) = [Inl e]"
  shows "status (run imported file env dir k) = 1"
    and "stderr (run imported file env dir k) = [Traceback e]"
    and "stdout (run imported file env dir k) = []"
  using assms unfolding call_outcomes_def stdout_def stderr_def run_trace run_status
  by (auto split: sum.splits list.splits option.splits)

text \<open>
  In the concrete world with the key beside the script, the call is made and ends as the
  world says; with no key file the constructor raises.
\<close>

lemma service_client:
  "ImageAnnotatorClient (service [''/srv/app/vision-api.json''] r)
     (env(GOOGLE_APPLICATION_CREDENTIALS \<mapsto> ''/srv/app/vision-api.json'')) =
   Inr ''/srv/app/vision-api.json''"
  by (simp add: service_def)


lemma service_call: "text_detection (service files r) c img = r"
  by (simp add: service_def)

lemma service_outcome:
  "call_outcomes (run (Inr (service [''/srv/app/vision-api.json''] r))
     (Some ''/srv/app/main.py'') env dir k) = [r]"
  unfolding call_outcomes_def run_trace
  by (simp add: CRED_PATH_example service_client service_call split: sum.splits list.splits)

lemma service_trace_example:
  "trace (final (run (Inr (service [''/srv/app/vision-api.json''] (annotations [lit ''HELLO WORLD''])))
     (Some ''/srv/app/main.py'') Map.empty ''/home'' utf8)) =
   [SetEnv GOOGLE_APPLICATION_CREDENTIALS ''/srv/app/vision-api.json'',
    Request request_image,
    Outcome (Inr \<lparr>text_annotations = [\<lparr>description = lit ''HELLO WORLD''\<rparr>]\<rparr>),
    Stdout ''Texts:'', Stdout ''\<newline>'',
    Stdout ''HELLO WORLD'', Stdout ''\<newline>'']"
proof -
  have "encode utf8 (lit ''HELLO WORLD'') = Inr ''HELLO WORLD''"
    by (rule encode_lit) simp
  then show ?thesis
    unfolding run_trace
    by (simp add: CRED_PATH_example service_client service_call annotations_def)
qed

text \<open>A description that one codec writes and another refuses.\<close>

lemma encode_utf8_e_acute: "encode utf8 [0xE9] = Inr [char_of (0xC3::nat), char_of (0xA9::nat)]"
  by (simp add: utf8_def utf8_char_def)

lemma encode_ascii_e_acute: "encode ascii [0xE9] = Inl (UnicodeEncodeError 0xE9)"
  by (simp add: ascii_def)

subsection \<open>Output of a successful call\<close>

text \<open>
  C1. Whenever the remote call of an invocation returns and the annotation list it
  returns is not empty and starts with an annotation whose description is
  \<open>HELLO WORLD\<close>, everything the process writes to standard output is the header line
  \<open>Texts:\<close> followed by the line \<open>HELLO WORLD\<close>, under every codec of the stream.
\<close>

theorem hello_world_output:
  assumes "call_outcomes (run imported file env dir k) = [Inr resp]"
    and "text_annotations resp = a # rest"
    and "description a = lit ''HELLO WORLD''"
  shows "stdout (run imported file env dir k) = ''Texts:\<newline>HELLO WORLD\<newline>''"
proof -
  have "encode k (lit ''HELLO WORLD'') = Inr ''HELLO WORLD''"
    by (rule encode_lit) simp
  with assms show ?thesis by (simp add: returned_stdout)
qed

theorem hello_world_output_witness:
  "call_outcomes (run (Inr (service [''/srv/app/vision-api.json''] (annotations [lit ''HELLO WORLD''])))
     (Some ''/srv/app/main.py'') Map.empty ''/home'' utf8) =
     [Inr \<lparr>text_annotations = [\<lparr>description = lit ''HELLO WORLD''\<rparr>]\<rparr>]
   \<and> stdout (run (Inr (service [''/srv/app/vision-api.json''] (annotations [lit ''HELLO WORLD''])))
     (Some ''/srv/app/main.py'') Map.empty ''/home'' utf8) = ''Texts:\<newline>HELLO WORLD\<newline>''"
proof -
  let ?a = "\<lparr>description = lit ''HELLO WORLD''\<rparr>"
  let ?resp = "\<lparr>text_annotations = [?a]\<rparr>"
  have h1: "call_outcomes (run (Inr (service [''/srv/app/vision-api.json''] (annotations [lit ''HELLO WORLD''])))
     (Some ''/srv/app/main.py'') Map.empty ''/home'' utf8) = [Inr ?resp]"
    by (simp add: service_outcome annotations_def)
  have h2: "text_annotations ?resp = ?a # []" by simp
  have h3: "description ?a = lit ''HELLO WORLD''" by simp
  from h1 hello_world_output [OF h1 h2 h3] show ?thesis by blast
qed

text \<open>
  C2. Whenever the remote call of an invocation returns an empty annotation list,
  everything the process writes to standard output is the header line \<open>Texts:\<close> and
  nothing after it.
\<close>

theorem empty_list_output:
  assumes "call_outcomes (run imported file env dir k) = [Inr resp]"
    and "text_annotations resp = []"
  shows "stdout (run imported file env dir k) = ''Texts:\<newline>''"
  using assms by (simp add: returned_stdout)

theorem empty_list_output_witness:
  "call_outcomes (run (Inr (service [''/srv/app/vision-api.json''] (annotations [])))
     (Some ''/srv/app/main.py'') Map.empty ''/home'' utf8) = [Inr \<lparr>text_annotations = []\<rparr>]
   \<and> stdout (run (Inr (service [''/srv/app/vision-api.json''] (annotations [])))
     (Some ''/srv/app/main.py'') Map.empty ''/home'' utf8) = ''Texts:\<newline>''"
proof -
  have h1: "call_outcomes (run (Inr (service [''/srv/app/vision-api.json''] (annotations [])))
     (Some ''/srv/app/main.py'') Map.empty ''/home'' utf8) = [Inr \<lparr>text_annotations = []\<rparr>]"
    by (simp add: service_outcome annotations_def)
  have h2: "text_annotations \<lparr>text_annotations = []\<rparr> = []" by simp
  from h1 empty_list_output [OF h1 h2] show ?thesis by blast
qed

subsection \<open>The credential path\<close>

text \<open>
  C3 does not hold of every invocation as it is worded.
  The script takes \<open>__file__\<close> as it finds it and does not make it absolute. An
  interpreter that passes the script name as typed on the command line gives a relative
  \<open>__file__\<close>, and the exported path is then relative too.
\<close>

theorem cred_path_relative_counterexample:
  "environ (final (run (Inr (service [''/srv/app/vision-api.json''] (annotations [])))
      (Some ''main.py'') Map.empty ''/srv/app'' utf8)) GOOGLE_APPLICATION_CREDENTIALS =
     Some ''vision-api.json''
   \<and> \<not> isabs ''vision-api.json''
   \<and> ''vision-api.json'' \<noteq> dirname ''main.py'' @ ''/vision-api.json''"
  by (simp add: run_environ exported_def CRED_PATH_def join_def dirname_def upto_last_sep_def
      rstrip_def startswith_def endswith_def sep_def isabs_def)

text \<open>A script directly under the root: the directory already ends in the separator.\<close>

lemma CRED_PATH_root: "dirname ''/main.py'' = ''/'' \<and> CRED_PATH ''/main.py'' = ''/vision-api.json''"
  by (simp add: CRED_PATH_def join_def dirname_def upto_last_sep_def rstrip_def
      startswith_def endswith_def sep_def)

text \<open>
  C3, amended. For every invocation whose \<open>__file__\<close> is an absolute path, the path
  exported in \<open>GOOGLE_APPLICATION_CREDENTIALS\<close> is absolute and is the directory part of
  \<open>__file__\<close> followed by \<open>/vision-api.json\<close> (followed by \<open>vision-api.json\<close> alone
  when that directory consists of separators only, as the root does); it is the same
  whatever the current working directory of the process.
\<close>

theorem cred_path_of_absolute_script:
  assumes "isabs file"
  shows "environ (final (run (Inr lib) (Some file) env dir k)) GOOGLE_APPLICATION_CREDENTIALS =
           Some (CRED_PATH file)
         \<and> isabs (CRED_PATH file)
         \<and> CRED_PATH file =
             (if dirname file = replicate (length (dirname file)) sep
              then dirname file @ ''vision-api.json''
              else dirname file @ ''/vision-api.json'')
         \<and> environ (final (run (Inr lib) (Some file) env dir' k)) GOOGLE_APPLICATION_CREDENTIALS =
             environ (final (run (Inr lib) (Some file) env dir k)) GOOGLE_APPLICATION_CREDENTIALS"
  using CRED_PATH_abs [OF assms] CRED_PATH_shape [of "file"]
  by (simp add: run_environ exported_def)

theorem cred_path_of_absolute_script_witness:
  "isabs ''/srv/app/main.py''
   \<and> environ (final (run (Inr (service [''/srv/app/vision-api.json''] (annotations [])))
         (Some ''/srv/app/main.py'') Map.empty ''/home'' utf8)) GOOGLE_APPLICATION_CREDENTIALS =
       Some ''/srv/app/vision-api.json''
   \<and> isabs ''/srv/app/vision-api.json''
   \<and> environ (final (run (Inr (service [''/srv/app/vision-api.json''] (annotations [])))
         (Some ''/srv/app/main.py'') Map.empty ''/tmp'' utf8)) GOOGLE_APPLICATION_CREDENTIALS =
       environ (final (run (Inr (service [''/srv/app/vision-api.json''] (annotations [])))
         (Some ''/srv/app/main.py'') Map.empty ''/home'' utf8)) GOOGLE_APPLICATION_CREDENTIALS"
proof -
  have h: "isabs ''/srv/app/main.py''"
    by (simp add: isabs_def startswith_def sep_def)
  from h cred_path_of_absolute_script [OF h,
      of "service [''/srv/app/vision-api.json''] (annotations [])" Map.empty "''/home''" utf8 "''/tmp''"]
  show ?thesis unfolding CRED_PATH_example by blast
qed

subsection \<open>A call that raises\<close>

text \<open>
  C4. Whenever the remote call of an invocation raises an error, the script does not
  catch it: the process ends with a non-zero exit status, the error is reported on the
  error stream, and nothing, so no \<open>Texts:\<close> line, is written to standard output.
\<close>

theorem call_error_terminates:
  assumes "call_outcomes (run imported file env dir k) = [Inl e]"
  shows "status (run imported file env dir k) \<noteq> 0
         \<and> stderr (run imported file env dir k) = [Traceback e]
         \<and> stdout (run imported file env dir k) = []"
  using assms by (simp add: raised_run)

theorem call_error_terminates_witness:
  "call_outcomes (run (Inr (service [''/srv/app/vision-api.json''] (Inl (Error NetworkError ''unreachable''))))
     (Some ''/srv/app/main.py'') Map.empty ''/home'' utf8) = [Inl (Error NetworkError ''unreachable'')]
   \<and> status (run (Inr (service [''/srv/app/vision-api.json''] (Inl (Error NetworkError ''unreachable''))))
     (Some ''/srv/app/main.py'') Map.empty ''/home'' utf8) \<noteq> 0
   \<and> stderr (run (Inr (service [''/srv/app/vision-api.json''] (Inl (Error NetworkError ''unreachable''))))
     (Some ''/srv/app/main.py'') Map.empty ''/home'' utf8) = [Traceback (Error NetworkError ''unreachable'')]
   \<and> stdout (run (Inr (service [''/srv/app/vision-api.json''] (Inl (Error NetworkError ''unreachable''))))
     (Some ''/srv/app/main.py'') Map.empty ''/home'' utf8) = []"
proof -
  have h: "call_outcomes (run (Inr (service [''/srv/app/vision-api.json''] (Inl (Error NetworkError ''unreachable''))))
     (Some ''/srv/app/main.py'') Map.empty ''/home'' utf8) = [Inl (Error NetworkError ''unreachable'')]"
    by (rule service_outcome)
  from h call_error_terminates [OF h] show ?thesis by blast
qed

text \<open>
  The same end when it is the constructor that raises, as it does when the key file is
  missing: then the call is never made.
\<close>

lemma constructor_error_terminates:
  assumes "ImageAnnotatorClient lib (env(GOOGLE_APPLICATION_CREDENTIALS \<mapsto> CRED_PATH file)) = Inl e"
  shows "status (run (Inr lib) (Some file) env dir k) = 1"
    and "stderr (run (Inr lib) (Some file) env dir k) = [Traceback e]"
    and "stdout (run (Inr lib) (Some file) env dir k) = []"
    and "requests (run (Inr lib) (Some file) env dir k) = []"
  using assms by (simp_all add: run_status run_trace stdout_def stderr_def requests_def)

subsection \<open>Order of effects\<close>

text \<open>
  C5. In every execution nothing is written to standard output before the remote call
  has returned: the part of the trace that precedes the return of the call holds no
  output, and at most one request is ever made.
\<close>

theorem no_output_before_call_returns:
  "stdout_of (takeWhile (\<lambda>e. \<not> is_returned e) (trace (final (run imported file env dir k)))) = []
   \<and> length (requests (run imported file env dir k)) \<le> 1"
  unfolding run_trace requests_def by (simp split: sum.splits list.splits option.splits)

subsection \<open>The environment\<close>

text \<open>
  C7 does not hold of every invocation as it is worded. The write is on line 6, and the
  lines before it can raise: where the vendor package is not installed the import on
  line 1 raises, the process ends there, and the variable is never written.
\<close>

theorem import_error_no_env_write_counterexample:
  "env_writes_of (trace (final (run
      (Inl (ModuleNotFoundError ''No module named google'') :: error + string vision)
      (Some ''/srv/app/main.py'') Map.empty ''/srv/app'' utf8))) = []"
  unfolding run_trace by simp

text \<open>
  C7, amended. In every invocation that gets to line 6 (the import succeeds and
  \<open>__file__\<close> is defined) the script writes the environment exactly once: the write of
  \<open>GOOGLE_APPLICATION_CREDENTIALS\<close> is the first thing the process does, so no request
  precedes it, there is no later write to this or to any other variable, and the
  environment at the end is the inherited one with this variable set. In an invocation
  that ends before line 6 the script writes no variable and the environment stays as
  inherited.
\<close>

theorem credential_variable_written_once:
  "env_writes_of (trace (final (run imported file env dir k))) =
     (case exported imported file of
        None \<Rightarrow> []
      | Some p \<Rightarrow> [(GOOGLE_APPLICATION_CREDENTIALS, p)])
   \<and> takeWhile (\<lambda>e. \<not> is_setenv e) (trace (final (run imported file env dir k))) =
     (case exported imported file of
        None \<Rightarrow> trace (final (run imported file env dir k))
      | Some p \<Rightarrow> [])
   \<and> requests_of (takeWhile (\<lambda>e. \<not> is_setenv e) (trace (final (run imported file env dir k)))) = []
   \<and> environ (final (run imported file env dir k)) =
     (case exported imported file of
        None \<Rightarrow> env
      | Some p \<Rightarrow> env(GOOGLE_APPLICATION_CREDENTIALS \<mapsto> p))"
  unfolding run_trace run_environ
  by (simp add: exported_def split: sum.splits list.splits option.splits)

theorem credential_variable_written_once_witness:
  "exported (Inr (service [''/srv/app/vision-api.json''] (annotations [])))
     (Some ''/srv/app/main.py'') = Some ''/srv/app/vision-api.json''
   \<and> env_writes_of (trace (final (run (Inr (service [''/srv/app/vision-api.json''] (annotations [])))
       (Some ''/srv/app/main.py'') Map.empty ''/home'' utf8))) =
     [(GOOGLE_APPLICATION_CREDENTIALS, ''/srv/app/vision-api.json'')]
   \<and> environ (final (run (Inr (service [''/srv/app/vision-api.json''] (annotations [])))
       (Some ''/srv/app/main.py'') Map.empty ''/home'' utf8)) =
     [GOOGLE_APPLICATION_CREDENTIALS \<mapsto> ''/srv/app/vision-api.json'']"
proof -
  have x: "exported (Inr (service [''/srv/app/vision-api.json''] (annotations [])))
     (Some ''/srv/app/main.py'') = Some ''/srv/app/vision-api.json''"
    by (simp add: exported_def CRED_PATH_example)
  from x credential_variable_written_once [of
      "Inr (service [''/srv/app/vision-api.json''] (annotations []))"
      "Some ''/srv/app/main.py''" Map.empty "''/home''" utf8]
  show ?thesis by simp
qed

subsection \<open>Requests\<close>




lemma request_image_uri: "image_uri (source request_image) = image_url"
  by (simp add: request_image_def Image_def)

subsection \<open>What the output depends on\<close>



text \<open>
  C9 does not hold of every pair of invocations as it is worded. The bytes written are
  what the codec of standard output makes of the text, and \<open>print\<close> raises when the
  codec refuses it: with the same one annotation, a description holding \<open>U+00E9\<close>, a
  stream set to strict ASCII gets the header only and a stream set to UTF-8 gets the
  header and the description.
\<close>

theorem output_differs_by_codec_counterexample:
  "call_outcomes (run (Inr (service [''/srv/app/vision-api.json''] (annotations [[0xE9]])))
     (Some ''/srv/app/main.py'') Map.empty ''/home'' ascii) =
   call_outcomes (run (Inr (service [''/srv/app/vision-api.json''] (annotations [[0xE9]])))
     (Some ''/srv/app/main.py'') Map.empty ''/home'' utf8)
   \<and> stdout (run (Inr (service [''/srv/app/vision-api.json''] (annotations [[0xE9]])))
     (Some ''/srv/app/main.py'') Map.empty ''/home'' ascii) \<noteq>
     stdout (run (Inr (service [''/srv/app/vision-api.json''] (annotations [[0xE9]])))
     (Some ''/srv/app/main.py'') Map.empty ''/home'' utf8)"
proof -
  have o: "\<And>k. call_outcomes (run (Inr (service [''/srv/app/vision-api.json''] (annotations [[0xE9]])))
     (Some ''/srv/app/main.py'') Map.empty ''/home'' k) =
     [Inr \<lparr>text_annotations = [\<lparr>description = [0xE9]\<rparr>]\<rparr>]"
    by (simp add: service_outcome annotations_def)
  have s1: "stdout (run (Inr (service [''/srv/app/vision-api.json''] (annotations [[0xE9]])))
     (Some ''/srv/app/main.py'') Map.empty ''/home'' ascii) = ''Texts:\<newline>''"
    using returned_stdout [OF o [of ascii]] by (simp add: ascii_def)
  have s2: "stdout (run (Inr (service [''/srv/app/vision-api.json''] (annotations [[0xE9]])))
     (Some ''/srv/app/main.py'') Map.empty ''/home'' utf8) =
     ''Texts:\<newline>'' @ [char_of (0xC3::nat), char_of (0xA9::nat)] @ ''\<newline>''"
    using returned_stdout [OF o [of utf8]] by (simp add: utf8_def utf8_char_def)
  show ?thesis
    by (simp add: o s1 s2)
qed

text \<open>
  C9, amended. Standard output is a function of the annotation list the call returns and
  of the encoding and error handler of the stream: two invocations on the same stream
  settings whose remote calls return the same annotation list write the same output,
  whatever their script paths, inherited environments, working directories and worlds.
\<close>

theorem output_determined_by_annotations:
  assumes "call_outcomes (run imported1 file1 env1 dir1 k) = [Inr resp1]"
    and "call_outcomes (run imported2 file2 env2 dir2 k) = [Inr resp2]"
    and "text_annotations resp1 = text_annotations resp2"
  shows "stdout (run imported1 file1 env1 dir1 k) = stdout (run imported2 file2 env2 dir2 k)"
  using assms by (simp add: returned_stdout)

theorem output_determined_by_annotations_witness:
  "stdout (run (Inr (service [''/srv/app/vision-api.json''] (annotations [[0xE9]])))
     (Some ''/srv/app/main.py'') Map.empty ''/home'' ascii) =
   stdout (run (Inr (service [''/srv/app/vision-api.json''] (annotations [[0xE9]])))
     (Some ''/srv/app/main.py'') [''HOME'' \<mapsto> ''/root''] ''/tmp'' ascii)"
proof -
  have h1: "call_outcomes (run (Inr (service [''/srv/app/vision-api.json''] (annotations [[0xE9]])))
     (Some ''/srv/app/main.py'') Map.empty ''/home'' ascii) =
     [Inr \<lparr>text_annotations = [\<lparr>description = [0xE9]\<rparr>]\<rparr>]"
    by (simp add: service_outcome annotations_def)
  have h2: "call_outcomes (run (Inr (service [''/srv/app/vision-api.json''] (annotations [[0xE9]])))
     (Some ''/srv/app/main.py'') [''HOME'' \<mapsto> ''/root''] ''/tmp'' ascii) =
     [Inr \<lparr>text_annotations = [\<lparr>description = [0xE9]\<rparr>]\<rparr>]"
    by (simp add: service_outcome annotations_def)
  have h3: "text_annotations \<lparr>text_annotations = [\<lparr>description = [0xE9]\<rparr>]\<rparr> =
      text_annotations \<lparr>text_annotations = [\<lparr>description = [0xE9]\<rparr>]\<rparr>"
    by simp
  show ?thesis by (rule output_determined_by_annotations [OF h1 h2 h3])
qed

text \<open>
  C10. Whenever the call returns a non-empty annotation list whose first description is
  the empty string, standard output is the header followed by an empty line, which
  differs from the output \<open>Texts:\<close> of an invocation whose call returns the empty list.
\<close>

theorem blank_description_output:
  assumes "call_outcomes (run imported1 file1 env1 dir1 k1) = [Inr resp1]"
    and "text_annotations resp1 = a # rest"
    and "description a = []"
    and "call_outcomes (run imported2 file2 env2 dir2 k2) = [Inr resp2]"
    and "text_annotations resp2 = []"
  shows "stdout (run imported1 file1 env1 dir1 k1) = ''Texts:\<newline>\<newline>''
         \<and> stdout (run imported2 file2 env2 dir2 k2) = ''Texts:\<newline>''
         \<and> stdout (run imported1 file1 env1 dir1 k1) \<noteq> stdout (run imported2 file2 env2 dir2 k2)"
  using assms by (simp add: returned_stdout)

theorem blank_description_output_witness:
  "stdout (run (Inr (service [''/srv/app/vision-api.json''] (annotations [[]])))
     (Some ''/srv/app/main.py'') Map.empty ''/home'' utf8) = ''Texts:\<newline>\<newline>''
   \<and> stdout (run (Inr (service [''/srv/app/vision-api.json''] (annotations [])))
     (Some ''/srv/app/main.py'') Map.empty ''/home'' utf8) = ''Texts:\<newline>''
   \<and> stdout (run (Inr (service [''/srv/app/vision-api.json''] (annotations [[]])))
     (Some ''/srv/app/main.py'') Map.empty ''/home'' utf8) \<noteq>
     stdout (run (Inr (service [''/srv/app/vision-api.json''] (annotations [])))
     (Some ''/srv/app/main.py'') Map.empty ''/home'' utf8)"
proof -
  have h1: "call_outcomes (run (Inr (service [''/srv/app/vision-api.json''] (annotations [[]])))
     (Some ''/srv/app/main.py'') Map.empty ''/home'' utf8) =
     [Inr \<lparr>text_annotations = [\<lparr>description = []\<rparr>]\<rparr>]"
    by (simp add: service_outcome annotations_def)
  have h2: "text_annotations \<lparr>text_annotations = [\<lparr>description = []\<rparr>]\<rparr> = \<lparr>description = []\<rparr> # []"
    by simp
  have h3: "description \<lparr>description = []\<rparr> = []"
    by simp
  have h4: "call_outcomes (run (Inr (service [''/srv/app/vision-api.json''] (annotations [])))
     (Some ''/srv/app/main.py'') Map.empty ''/home'' utf8) = [Inr \<lparr>text_annotations = []\<rparr>]"
    by (simp add: service_outcome annotations_def)
  have h5: "text_annotations \<lparr>text_annotations = []\<rparr> = []"
    by simp
  show ?thesis by (rule blank_description_output [OF h1 h2 h3 h4 h5])
qed

end
